theory Spec2Isabelle
  imports Main
begin

section \<open>The remote identity service\<close>

text \<open>
  The three modules talk to OpenStack through client objects (\<^verbatim>\<open>cloud.services\<close>,
  \<^verbatim>\<open>cloud.endpoints\<close>, \<^verbatim>\<open>heat\<close>). The client libraries are not part of the repository.
  For the two Keystone modules the remote side is an in-memory catalogue: the list of
  services, the list of endpoints, and a log of every client call in the order issued.
  \<^verbatim>\<open>list()\<close> returns the catalogue, \<^verbatim>\<open>create(...)\<close> appends a resource carrying
  exactly the attributes passed, \<^verbatim>\<open>delete(id)\<close> removes the resources with that id
  and raises when there is none. The identifier the remote side assigns to a created
  resource is its own choice, so it is an argument (\<open>new_id\<close>) of every function that
  may create.
\<close>

record service =
  svc_id :: string
  svc_name :: string
  svc_type :: string
  svc_description :: string

record endpoint =
  ep_id :: string
  ep_service_id :: string
  ep_region :: "string option"
  ep_publicurl :: "string option"
  ep_internalurl :: "string option"
  ep_adminurl :: "string option"

datatype call =
    ServicesList
  | ServicesCreate string string string
  | ServicesDelete string
  | EndpointsList
  | EndpointsCreate string "string option" "string option" "string option" "string option"
  | EndpointsDelete string

record cloud =
  services :: "service list"
  endpoints :: "endpoint list"
  calls :: "call list"

text \<open>
  Python exceptions as values. \<open>KeyError\<close> and \<open>ValueError\<close> are the two the modules
  raise themselves; \<open>NameError\<close> is the use of an unbound name and \<open>IOError\<close> a failed
  file read; \<open>NotFound\<close> is the client's answer to deleting an unknown id;
  \<open>OtherError\<close> stands for any other \<^verbatim>\<open>Exception\<close> (connection, authentication).
\<close>

datatype error =
    KeyError string
  | ValueError string
  | NameError string
  | IOError string
  | NotFound string
  | OtherError string

text \<open>Every operation returns the value or the exception, and always the remote state.\<close>

type_synonym 'a result = "(error + 'a) \<times> cloud"

definition is_mutation :: "call \<Rightarrow> bool" where
  "is_mutation k = (case k of
       ServicesList \<Rightarrow> False
     | EndpointsList \<Rightarrow> False
     | _ \<Rightarrow> True)"

definition issued :: "cloud \<Rightarrow> cloud \<Rightarrow> call list" where
  "issued c c' = drop (length (calls c)) (calls c')"

definition services_list :: "cloud \<Rightarrow> service list \<times> cloud" where
  "services_list c = (services c, c\<lparr>calls := calls c @ [ServicesList]\<rparr>)"

definition services_create :: "cloud \<Rightarrow> string \<Rightarrow> string \<Rightarrow> string \<Rightarrow> string \<Rightarrow> service \<times> cloud" where
  "services_create c new_id name service_type description =
     (let s = \<lparr>svc_id = new_id, svc_name = name, svc_type = service_type,
                svc_description = description\<rparr>
      in (s, c\<lparr>services := services c @ [s],
               calls := calls c @ [ServicesCreate name service_type description]\<rparr>))"

definition services_delete :: "cloud \<Rightarrow> string \<Rightarrow> unit result" where
  "services_delete c i =
     (let c1 = c\<lparr>calls := calls c @ [ServicesDelete i]\<rparr>
      in if i \<in> set (map svc_id (services c))
         then (Inr (), c1\<lparr>services := filter (\<lambda>s. svc_id s \<noteq> i) (services c)\<rparr>)
         else (Inl (NotFound i), c1))"

definition endpoints_list :: "cloud \<Rightarrow> endpoint list \<times> cloud" where
  "endpoints_list c = (endpoints c, c\<lparr>calls := calls c @ [EndpointsList]\<rparr>)"

definition endpoints_create ::
  "cloud \<Rightarrow> string \<Rightarrow> string \<Rightarrow> string option \<Rightarrow> string option \<Rightarrow> string option \<Rightarrow> string option
     \<Rightarrow> endpoint \<times> cloud" where
  "endpoints_create c new_id service_id region publicurl internalurl adminurl =
     (let e = \<lparr>ep_id = new_id, ep_service_id = service_id, ep_region = region,
                ep_publicurl = publicurl, ep_internalurl = internalurl,
                ep_adminurl = adminurl\<rparr>
      in (e, c\<lparr>endpoints := endpoints c @ [e],
               calls := calls c @ [EndpointsCreate service_id region publicurl internalurl adminurl]\<rparr>))"

definition endpoints_delete :: "cloud \<Rightarrow> string \<Rightarrow> unit result" where
  "endpoints_delete c i =
     (let c1 = c\<lparr>calls := calls c @ [EndpointsDelete i]\<rparr>
      in if i \<in> set (map ep_id (endpoints c))
         then (Inr (), c1\<lparr>endpoints := filter (\<lambda>e. ep_id e \<noteq> i) (endpoints c)\<rparr>)
         else (Inl (NotFound i), c1))"

section \<open>String formatting\<close>

text \<open>
  \<^verbatim>\<open>%d\<close> of a count and \<^verbatim>\<open>%s\<close> of a value that may be \<^verbatim>\<open>None\<close>. \<open>digit\<close> is
  applied to numbers below 10 only.
\<close>

definition digit :: "nat \<Rightarrow> char" where
  "digit d = ''0123456789'' ! d"

fun str_nat :: "nat \<Rightarrow> string" where
  "str_nat n = (if n < 10 then [digit n] else str_nat (n div 10) @ [digit (n mod 10)])"

declare str_nat.simps [simp del]

definition str_opt :: "string option \<Rightarrow> string" where
  "str_opt v = (case v of None \<Rightarrow> ''None'' | Some s \<Rightarrow> s)"

section \<open>os_keystone_service\<close>

definition service_exists :: "cloud \<Rightarrow> string \<Rightarrow> bool \<times> cloud" where
  "service_exists c service_name =
     (let (xs, c1) = services_list c
      in (service_name \<in> set (map svc_name xs), c1))"

definition get_service :: "cloud \<Rightarrow> string \<Rightarrow> service result" where
  "get_service c service_name =
     (let (xs, c1) = services_list c;
          found = filter (\<lambda>x. svc_name x = service_name) xs;
          count = length found
      in if count = 0 then
           (Inl (KeyError (''No service with name '' @ service_name)), c1)
         else if count > 1 then
           (Inl (ValueError (str_nat count @ '' services with name '' @ service_name)), c1)
         else (Inr (found ! 0), c1))"

definition get_service_id :: "cloud \<Rightarrow> string \<Rightarrow> string result" where
  "get_service_id c service_name =
     (case get_service c service_name of
        (Inl e, c1) \<Rightarrow> (Inl e, c1)
      | (Inr s, c1) \<Rightarrow> (Inr (svc_id s), c1))"

text \<open>
  \<^verbatim>\<open>ensure_service_exists\<close> returns the pair \<^verbatim>\<open>(changed, id)\<close>; the id is \<^verbatim>\<open>None\<close> in
  check mode. Only \<^verbatim>\<open>KeyError\<close> is caught; anything else propagates.
\<close>

definition ensure_service_exists ::
  "cloud \<Rightarrow> string \<Rightarrow> string \<Rightarrow> string \<Rightarrow> string \<Rightarrow> bool \<Rightarrow> (bool \<times> string option) result" where
  "ensure_service_exists c new_id service_name service_type service_description check_mode =
     (case get_service c service_name of
        (Inr s, c1) \<Rightarrow> (Inr (False, Some (svc_id s)), c1)
      | (Inl (KeyError m), c1) \<Rightarrow>
          if check_mode then (Inr (True, None), c1)
          else (let (ks_service, c2) =
                      services_create c1 new_id service_name service_type service_description
                in (Inr (True, Some (svc_id ks_service)), c2))
      | (Inl e, c1) \<Rightarrow> (Inl e, c1))"

text \<open>
  \<^verbatim>\<open>ensure_service_absent\<close> returns \<^verbatim>\<open>False\<close>, \<^verbatim>\<open>True\<close>, or (after the delete call,
  where the function body ends without a \<^verbatim>\<open>return\<close>) \<^verbatim>\<open>None\<close>: the value is a
  \<open>bool option\<close> with \<open>None\<close> for Python's \<^verbatim>\<open>None\<close>.
\<close>

definition ensure_service_absent :: "cloud \<Rightarrow> string \<Rightarrow> bool \<Rightarrow> bool option result" where
  "ensure_service_absent c service_name check_mode =
     (let (ex, c1) = service_exists c service_name
      in if \<not> ex then (Inr (Some False), c1)
         else if check_mode then (Inr (Some True), c1)
         else (case get_service c1 service_name of
                 (Inl e, c2) \<Rightarrow> (Inl e, c2)
               | (Inr s, c2) \<Rightarrow>
                   (case services_delete c2 (svc_id s) of
                      (Inl e, c3) \<Rightarrow> (Inl e, c3)
                    | (Inr u, c3) \<Rightarrow> (Inr None, c3))))"

datatype message = ShadeRequired | ExceptionMsg error

text \<open>
  What the module hands back to the host: \<^verbatim>\<open>exit_json(changed=..., id=...)\<close>,
  \<^verbatim>\<open>exit_json(changed=True, msg="exception: %s" % e)\<close> or \<^verbatim>\<open>fail_json(msg=...)\<close>,
  and the \<^verbatim>\<open>exit_json(skipped=True, ...)\<close> with which the \<^verbatim>\<open>AnsibleModule\<close> constructor
  ends a run. The message keeps the exception itself instead of its rendering by
  \<^verbatim>\<open>str\<close>.
\<close>

datatype exit =
    ExitJsonId "bool option" "string option"
  | ExitJsonMsg bool message
  | FailJson message
  | ExitSkipped

text \<open>
  \<^verbatim>\<open>AnsibleModule\<close> belongs to the host's \<^verbatim>\<open>module_utils\<close>, which the modules import with
  \<^verbatim>\<open>*\<close>; it is not part of the repository. Its constructor takes the keyword
  \<^verbatim>\<open>supports_check_mode\<close>, \<^verbatim>\<open>False\<close> when not given. When the host asks for a check-mode
  run of a module built without it, the constructor exits at once with
  \<^verbatim>\<open>skipped=True\<close>; otherwise the run goes on and \<^verbatim>\<open>module.check_mode\<close> is whether
  check mode was asked for.
\<close>

definition ansible_module :: "bool \<Rightarrow> bool \<Rightarrow> exit + bool" where
  "ansible_module supports_check_mode check_requested =
     (if check_requested then
        (if \<not> supports_check_mode then Inl ExitSkipped else Inr True)
      else Inr False)"

record service_params =
  p_name :: string
  p_service_type :: string
  p_description :: string
  p_state :: string

text \<open>
  \<open>has_shade\<close> is the flag set by the guarded import; \<open>connect\<close> is the exception
  raised by \<^verbatim>\<open>shade.openstack_cloud(**module.params)\<close>, if any; \<open>c\<close> is the remote
  state the connection reaches; \<open>check_requested\<close> is whether the host asks for a
  check-mode run. \<^verbatim>\<open>main()\<close> builds the module with
  \<^verbatim>\<open>AnsibleModule(argument_spec, **module_kwargs)\<close>, where \<^verbatim>\<open>module_kwargs\<close> is what
  \<^verbatim>\<open>openstack_module_kwargs()\<close> returns for no argument: \<^verbatim>\<open>supports_check_mode\<close> is
  not passed. \<open>check_mode\<close> is \<^verbatim>\<open>module.check_mode\<close> of a run that goes on.
\<close>

definition service_main ::
  "bool \<Rightarrow> error option \<Rightarrow> cloud \<Rightarrow> string \<Rightarrow> service_params \<Rightarrow> bool \<Rightarrow> exit \<times> cloud" where
  "service_main has_shade connect c new_id params check_requested =
     (case ansible_module False check_requested of
        Inl skipped \<Rightarrow> (skipped, c)
      | Inr check_mode \<Rightarrow>
          if \<not> has_shade then (FailJson ShadeRequired, c)
          else
            (let attempt =
                   (case connect of
                      Some e \<Rightarrow> (Inl e, c)
                    | None \<Rightarrow>
                        if p_state params = ''present'' then
                          (case ensure_service_exists c new_id (p_name params)
                                  (p_service_type params) (p_description params) check_mode of
                             (Inl e, c1) \<Rightarrow> (Inl e, c1)
                           | (Inr (changed, i), c1) \<Rightarrow> (Inr (Some changed, i), c1))
                        else if p_state params = ''absent'' then
                          (case ensure_service_absent c (p_name params) check_mode of
                             (Inl e, c1) \<Rightarrow> (Inl e, c1)
                           | (Inr changed, c1) \<Rightarrow> (Inr (changed, None), c1))
                        else (Inl (ValueError (''Invalid state '' @ p_state params)), c))
             in case attempt of
                  (Inl e, c1) \<Rightarrow>
                    if check_mode then (ExitJsonMsg True (ExceptionMsg e), c1)
                    else (FailJson (ExceptionMsg e), c1)
                | (Inr (changed, i), c1) \<Rightarrow> (ExitJsonId changed i, c1)))"

section \<open>os_keystone_endpoint\<close>

definition endpoint_match ::
  "endpoint \<Rightarrow> string \<Rightarrow> string option \<Rightarrow> string option \<Rightarrow> string option \<Rightarrow> string option \<Rightarrow> bool" where
  "endpoint_match e service_id region public_url internal_url admin_url =
     (ep_service_id e = service_id \<and>
      ep_region e = region \<and>
      ep_publicurl e = public_url \<and>
      ep_internalurl e = internal_url \<and>
      ep_adminurl e = admin_url)"

definition ep_get_service :: "cloud \<Rightarrow> string \<Rightarrow> service result" where
  "ep_get_service c service_name =
     (let (xs, c1) = services_list c;
          found = filter (\<lambda>x. svc_name x = service_name) xs;
          count = length found
      in if count = 0 then
           (Inl (KeyError (''No keystone services with name '' @ service_name)), c1)
         else if count > 1 then
           (Inl (ValueError (str_nat count @ '' services with name '' @ service_name)), c1)
         else (Inr (found ! 0), c1))"

text \<open>
  \<^verbatim>\<open>any(endpoints)\<close> tests the truth value of the listed objects. Client resource
  objects define neither \<^verbatim>\<open>__nonzero__\<close> nor \<^verbatim>\<open>__len__\<close>, so each is true and the test
  is whether the filtered list is non-empty.
\<close>

definition endpoint_exists ::
  "cloud \<Rightarrow> string \<Rightarrow> string option \<Rightarrow> string option \<Rightarrow> string option \<Rightarrow> string option
     \<Rightarrow> bool \<times> cloud" where
  "endpoint_exists c service_id region public_url internal_url admin_url =
     (let (xs, c1) = endpoints_list c;
          found = filter (\<lambda>x. endpoint_match x service_id region public_url internal_url admin_url) xs
      in (found \<noteq> [], c1))"

definition get_endpoint ::
  "cloud \<Rightarrow> string \<Rightarrow> string option \<Rightarrow> string option \<Rightarrow> string option \<Rightarrow> string option
     \<Rightarrow> endpoint result" where
  "get_endpoint c service_id region public_url internal_url admin_url =
     (let (xs, c1) = endpoints_list c;
          found = filter (\<lambda>x. endpoint_match x service_id region public_url internal_url admin_url) xs;
          count = length found
      in if count = 0 then
           (Inl (KeyError (''No keystone endpoint with service id: '' @ service_id
                   @ '', region: '' @ str_opt region
                   @ '', public_url: '' @ str_opt public_url
                   @ '', internal_url: '' @ str_opt internal_url
                   @ '', admin_url: '' @ str_opt admin_url)), c1)
         else if count > 1 then
           (Inl (ValueError (str_nat count @ '' services with service id: '' @ service_id
                   @ '', region: '' @ str_opt region
                   @ '', public_url: '' @ str_opt public_url
                   @ '', internal_url: '' @ str_opt internal_url
                   @ '', admin_url: '' @ str_opt admin_url)), c1)
         else (Inr (found ! 0), c1))"

definition ensure_endpoint_exists ::
  "cloud \<Rightarrow> string \<Rightarrow> string \<Rightarrow> string option \<Rightarrow> string option \<Rightarrow> string option \<Rightarrow> string option
     \<Rightarrow> bool \<Rightarrow> (bool \<times> string option) result" where
  "ensure_endpoint_exists c new_id service_name region public_url internal_url admin_url check_mode =
     (case ep_get_service c service_name of
        (Inl e, c1) \<Rightarrow> (Inl e, c1)
      | (Inr s, c1) \<Rightarrow>
          (let service_id = svc_id s
           in case get_endpoint c1 service_id region public_url internal_url admin_url of
                (Inr ep, c2) \<Rightarrow> (Inr (False, Some (ep_id ep)), c2)
              | (Inl (KeyError m), c2) \<Rightarrow>
                  if check_mode then (Inr (True, None), c2)
                  else (let (ks_service, c3) =
                              endpoints_create c2 new_id service_id region public_url
                                internal_url admin_url
                        in (Inr (True, Some (ep_id ks_service)), c3))
              | (Inl e, c2) \<Rightarrow> (Inl e, c2)))"

definition ensure_endpoint_absent ::
  "cloud \<Rightarrow> string \<Rightarrow> string option \<Rightarrow> string option \<Rightarrow> string option \<Rightarrow> string option
     \<Rightarrow> bool \<Rightarrow> bool option result" where
  "ensure_endpoint_absent c service_name region public_url internal_url admin_url check_mode =
     (case ep_get_service c service_name of
        (Inl e, c1) \<Rightarrow> (Inl e, c1)
      | (Inr s, c1) \<Rightarrow>
          (let service_id = svc_id s;
               (ex, c2) = endpoint_exists c1 service_id region public_url internal_url admin_url
           in if \<not> ex then (Inr (Some False), c2)
              else if check_mode then (Inr (Some True), c2)
              else (case get_endpoint c2 service_id region public_url internal_url admin_url of
                      (Inl e, c3) \<Rightarrow> (Inl e, c3)
                    | (Inr ep, c3) \<Rightarrow>
                        (case endpoints_delete c3 (ep_id ep) of
                           (Inl e, c4) \<Rightarrow> (Inl e, c4)
                         | (Inr u, c4) \<Rightarrow> (Inr None, c4)))))"

record endpoint_params =
  p_service_name :: string
  p_region :: "string option"
  p_public_url :: "string option"
  p_internal_url :: "string option"
  p_admin_url :: "string option"
  p_ep_state :: string

definition endpoint_main ::
  "bool \<Rightarrow> error option \<Rightarrow> cloud \<Rightarrow> string \<Rightarrow> endpoint_params \<Rightarrow> bool \<Rightarrow> exit \<times> cloud" where
  "endpoint_main has_shade connect c new_id params check_requested =
     (case ansible_module False check_requested of
        Inl skipped \<Rightarrow> (skipped, c)
      | Inr check_mode \<Rightarrow>
          if \<not> has_shade then (FailJson ShadeRequired, c)
          else
            (let attempt =
                   (case connect of
                      Some e \<Rightarrow> (Inl e, c)
                    | None \<Rightarrow>
                        if p_ep_state params = ''present'' then
                          (case ensure_endpoint_exists c new_id (p_service_name params)
                                  (p_region params) (p_public_url params)
                                  (p_internal_url params) (p_admin_url params) check_mode of
                             (Inl e, c1) \<Rightarrow> (Inl e, c1)
                           | (Inr (changed, i), c1) \<Rightarrow> (Inr (Some changed, i), c1))
                        else if p_ep_state params = ''absent'' then
                          (case ensure_endpoint_absent c (p_service_name params)
                                  (p_region params) (p_public_url params)
                                  (p_internal_url params) (p_admin_url params) check_mode of
                             (Inl e, c1) \<Rightarrow> (Inl e, c1)
                           | (Inr changed, c1) \<Rightarrow> (Inr (changed, None), c1))
                        else (Inl (ValueError (''Invalid state '' @ p_ep_state params)), c))
             in case attempt of
                  (Inl e, c1) \<Rightarrow>
                    if check_mode then (ExitJsonMsg True (ExceptionMsg e), c1)
                    else (FailJson (ExceptionMsg e), c1)
                | (Inr (changed, i), c1) \<Rightarrow> (ExitJsonId changed i, c1)))"

section \<open>heat\<close>

text \<open>
  \<^verbatim>\<open>heat.get(stack_name)\<close> either raises or returns a stack whose \<^verbatim>\<open>status\<close> is read.
  The remote side answers the \<open>n\<close>-th lookup of a name as it pleases, so it is a function
  of the name and the number of lookups made before.
\<close>

datatype lookup = Raises | Stack string

datatype pyval = PyBool bool | PyStr string

text \<open>A \<^verbatim>\<open>dict(...)\<close> literal, as the association list of its keyword arguments.\<close>

type_synonym dict = "(string \<times> pyval) list"

record polling =
  outcome :: dict
  polls :: nat
  sleeps :: "nat list"

text \<open>
  The \<^verbatim>\<open>while\<close> loop of \<^verbatim>\<open>stack_operation\<close>. It has no bound: the function is partial,
  and \<open>None\<close> is the loop that never ends. \<open>existed\<close> is the list the source appends
  \<^verbatim>\<open>'yes'\<close> to, \<open>n\<close> counts the lookups made, \<open>slept\<close> collects the arguments of
  \<^verbatim>\<open>time.sleep\<close>.
\<close>

partial_function (option) stack_poll ::
  "(string \<Rightarrow> nat \<Rightarrow> lookup) \<Rightarrow> string \<Rightarrow> string \<Rightarrow> string list \<Rightarrow> nat \<Rightarrow> nat list \<Rightarrow> polling option" where
  "stack_poll heat stack_name operation existed n slept =
     (case heat stack_name n of
        Raises \<Rightarrow>
          if ''yes'' \<in> set existed then
            Some \<lparr>outcome = [(''changed'', PyBool True), (''output'', PyStr ''Stack Deleted'')],
                  polls = Suc n, sleeps = slept\<rparr>
          else
            Some \<lparr>outcome = [(''changed'', PyBool True), (''output'', PyStr ''Stack Not Found'')],
                  polls = Suc n, sleeps = slept\<rparr>
      | Stack status \<Rightarrow>
          if operation @ ''_COMPLETE'' = status then
            Some \<lparr>outcome = [(''changed'', PyBool True),
                             (''output'', PyStr (''Stack '' @ operation @ '' complete''))],
                  polls = Suc n, sleeps = slept\<rparr>
          else if operation @ ''_FAILED'' = status then
            Some \<lparr>outcome = [(''failed'', PyBool True),
                             (''output'', PyStr (''Stack '' @ operation @ '' failed''))],
                  polls = Suc n, sleeps = slept\<rparr>
          else stack_poll heat stack_name operation (existed @ [''yes'']) (Suc n) (slept @ [5]))"

definition stack_operation ::
  "(string \<Rightarrow> nat \<Rightarrow> lookup) \<Rightarrow> string \<Rightarrow> string \<Rightarrow> polling option" where
  "stack_operation heat stack_name operation = stack_poll heat stack_name operation [] 0 []"

text \<open>The four environment variables; \<^verbatim>\<open>os.getenv\<close> gives \<^verbatim>\<open>None\<close> for an unset one.\<close>

record heat_env =
  os_username :: "string option"
  os_password :: "string option"
  os_tenant_name :: "string option"
  os_auth_url :: "string option"

definition credential_check :: "heat_env \<Rightarrow> string list" where
  "credential_check env =
     (if Some [] \<in> set [os_username env, os_password env, os_tenant_name env, os_auth_url env]
      then [''system environment variables are required for keystone authentication'']
      else [])"

record heat_params =
  h_action :: string
  h_stack_name :: string
  h_template :: string
  h_template_parameters :: "(string \<times> string) list"
  h_tags :: "(string \<times> string) list option"

text \<open>
  Modelled from the spec: the AuthProvider, the Keystone client that
  \<^verbatim>\<open>ksclient.Client(username=..., password=..., tenant_name=..., auth_url=...)\<close> builds,
  is missing from the repository. The spec: it "exchanges environment-supplied
  credentials (username, password, tenant/project name, auth endpoint URL) for a bearer
  token and a scoped service endpoint URL. Fails fatally if any credential is empty."
  \<open>exchange\<close> is the answer of the identity service to credentials none of which is
  empty: the token id and the tenant id, or an exception.
\<close>

definition auth_provider ::
  "(string option \<Rightarrow> string option \<Rightarrow> string option \<Rightarrow> string option \<Rightarrow> error + string \<times> string)
     \<Rightarrow> string option \<Rightarrow> string option \<Rightarrow> string option \<Rightarrow> string option
     \<Rightarrow> error + string \<times> string" where
  "auth_provider exchange username password tenant_name auth_url =
     (if Some [] \<in> set [username, password, tenant_name, auth_url]
      then Inl (OtherError ''AuthenticationError'')
      else exchange username password tenant_name auth_url)"

text \<open>
  What lies outside the module: whether the two client imports succeed, the content of
  the template file, the answer of the identity service to credentials none of which
  is empty (\<open>keystone\<close>), whether the names \<^verbatim>\<open>stack_policy_body\<close> and
  \<^verbatim>\<open>disable_rollback\<close>, which the module itself binds nowhere, are bound by the snippets
  it imports with \<^verbatim>\<open>*\<close>, the exception raised by \<^verbatim>\<open>heat.stacks.create\<close> and by
  \<^verbatim>\<open>heat.stacks.delete\<close>, if any, and the answers to the status lookups.
\<close>

record heat_world =
  has_clients :: bool
  template_file :: "string \<Rightarrow> error + string"
  keystone :: "string option \<Rightarrow> string option \<Rightarrow> string option \<Rightarrow> string option \<Rightarrow> error + string \<times> string"
  snippets_bind :: bool
  stacks_create :: "error option"
  stacks_delete :: "error option"
  heat_get :: "string \<Rightarrow> nat \<Rightarrow> lookup"

datatype heat_event =
    Print string
  | KeystoneClient "string option" "string option" "string option" "string option"
  | StacksCreate string
  | StacksDelete string

datatype heat_exit =
    HeatExitJson dict
  | HeatFailJson error
  | Uncaught error

text \<open>
  \<^verbatim>\<open>main\<close> of the heat module, with the events issued so far. The result is \<open>None\<close> when
  the polling loop never ends.
\<close>

definition heat_main ::
  "heat_world \<Rightarrow> heat_env \<Rightarrow> heat_params \<Rightarrow> heat_event list \<Rightarrow> (heat_exit \<times> heat_event list) option" where
  "heat_main w env params evs =
     (case template_file w (h_template params) of
        Inl e \<Rightarrow> Some (Uncaught e, evs)
      | Inr template_body \<Rightarrow>
          if \<not> has_clients w then Some (Uncaught (NameError ''ksclient''), evs)
          else
            (let evs1 = evs @ [KeystoneClient (os_username env) (os_password env)
                                 (os_tenant_name env) (os_auth_url env)]
             in case auth_provider (keystone w) (os_username env) (os_password env)
                       (os_tenant_name env) (os_auth_url env) of
                  Inl e \<Rightarrow> Some (Uncaught e, evs1)
                | Inr (auth_token, tenant_id) \<Rightarrow>
                    if h_action params = ''create'' then
                      (if \<not> snippets_bind w then
                         Some (HeatFailJson (NameError ''stack_policy_body''), evs1)
                       else
                         (let evs2 = evs1 @ [StacksCreate (h_stack_name params)]
                          in case stacks_create w of
                               Some err \<Rightarrow> Some (HeatFailJson err, evs2)
                             | None \<Rightarrow>
                                 (case stack_operation (heat_get w) (h_stack_name params) ''CREATE'' of
                                    None \<Rightarrow> None
                                  | Some r \<Rightarrow> Some (HeatExitJson (outcome r), evs2))))
                    else if h_action params = ''delete'' then
                      (let evs2 = evs1 @ [StacksDelete (h_stack_name params)]
                       in case stacks_delete w of
                            Some err \<Rightarrow> Some (Uncaught err, evs2)
                          | None \<Rightarrow>
                              (case stack_operation (heat_get w) (h_stack_name params) ''DELETE'' of
                                 None \<Rightarrow> None
                               | Some r \<Rightarrow> Some (HeatExitJson (outcome r), evs2)))
                    else Some (HeatExitJson [], evs1)))"

text \<open>
  Loading and running the module: the guarded import prints when it fails, the
  credential check prints when it finds an empty string, then \<^verbatim>\<open>main()\<close> runs.
\<close>

definition heat_module ::
  "heat_world \<Rightarrow> heat_env \<Rightarrow> heat_params \<Rightarrow> (heat_exit \<times> heat_event list) option" where
  "heat_module w env params =
     heat_main w env params
       (map Print ((if has_clients w then []
                    else [''failed=True msg='heatclient and keystoneclient is required for this module'' @ [CHR 0x27]])
                   @ credential_check env))"

section \<open>Notions used to state the properties\<close>

text \<open>
  The remote resources a descriptor matches: the services with the given name, and the
  endpoints that \<^verbatim>\<open>endpoint_match\<close> accepts for a resolved service id.
\<close>

definition service_matches :: "cloud \<Rightarrow> string \<Rightarrow> service list" where
  "service_matches c service_name = filter (\<lambda>x. svc_name x = service_name) (services c)"

definition endpoint_matches ::
  "cloud \<Rightarrow> string \<Rightarrow> string option \<Rightarrow> string option \<Rightarrow> string option \<Rightarrow> string option
     \<Rightarrow> endpoint list" where
  "endpoint_matches c service_id region public_url internal_url admin_url =
     filter (\<lambda>x. endpoint_match x service_id region public_url internal_url admin_url)
       (endpoints c)"

text \<open>The create and delete calls issued between two remote states.\<close>

definition mutations :: "cloud \<Rightarrow> cloud \<Rightarrow> call list" where
  "mutations c c' = filter is_mutation (issued c c')"

definition is_ambiguity :: "error + 'a \<Rightarrow> bool" where
  "is_ambiguity r = (case r of Inl (ValueError m) \<Rightarrow> True | _ \<Rightarrow> False)"

abbreviation listed :: "cloud \<Rightarrow> call list \<Rightarrow> cloud" where
  "listed c ks \<equiv> c\<lparr>calls := calls c @ ks\<rparr>"

text \<open>
  A lookup answer that keeps the loop polling, and the remote side giving such an answer
  to each of the first \<open>k\<close> lookups.
\<close>

definition other_status :: "string \<Rightarrow> lookup \<Rightarrow> bool" where
  "other_status operation l =
     (case l of
        Raises \<Rightarrow> False
      | Stack status \<Rightarrow>
          operation @ ''_COMPLETE'' \<noteq> status \<and> operation @ ''_FAILED'' \<noteq> status)"

fun in_progress :: "(string \<Rightarrow> nat \<Rightarrow> lookup) \<Rightarrow> string \<Rightarrow> string \<Rightarrow> nat \<Rightarrow> bool" where
  "in_progress heat stack_name operation 0 = True"
| "in_progress heat stack_name operation (Suc k) =
     (in_progress heat stack_name operation k \<and> other_status operation (heat stack_name k))"

text \<open>A remote side that answers from a list, then keeps giving the answer \<open>after\<close>.\<close>

definition script :: "lookup list \<Rightarrow> lookup \<Rightarrow> string \<Rightarrow> nat \<Rightarrow> lookup" where
  "script answers after stack_name n = (if n < length answers then answers ! n else after)"

text \<open>Concrete remote states for the examples: a catalogue with no call made yet.\<close>

definition remote :: "service list \<Rightarrow> endpoint list \<Rightarrow> cloud" where
  "remote ss es = \<lparr>services = ss, endpoints = es, calls = []\<rparr>"

definition glance :: "string \<Rightarrow> service" where
  "glance i = \<lparr>svc_id = i, svc_name = ''glance'', svc_type = ''image'',
               svc_description = ''Glance image service''\<rparr>"

definition glance_endpoint :: "string \<Rightarrow> endpoint" where
  "glance_endpoint i = \<lparr>ep_id = i, ep_service_id = ''s1'', ep_region = Some ''aw1'',
                        ep_publicurl = Some ''https://glance/'',
                        ep_internalurl = Some ''http://glance:9292/'',
                        ep_adminurl = Some ''https://glance/''\<rparr>"

text \<open>The calls that submit a stack operation, among the events of a run.\<close>

definition is_stack_call :: "heat_event \<Rightarrow> bool" where
  "is_stack_call ev =
     (case ev of StacksCreate n \<Rightarrow> True | StacksDelete n \<Rightarrow> True | _ \<Rightarrow> False)"

definition stack_calls :: "heat_event list \<Rightarrow> heat_event list" where
  "stack_calls evs = filter is_stack_call evs"

text \<open>
  A world in which the imports succeed, the template is readable, the identity service
  hands a token to the user admin with the password secret and to nobody else, and the
  stack is unknown to the orchestration service at the first lookup.
\<close>

definition demo_world :: heat_world where
  "demo_world =
     \<lparr>has_clients = True,
      template_file = (\<lambda>path. Inr ''{}''),
      keystone = (\<lambda>username password tenant_name auth_url.
                    if username = Some ''admin'' \<and> password = Some ''secret''
                    then Inr (''token'', ''tenant'')
                    else Inl (OtherError ''Unauthorized'')),
      snippets_bind = False,
      stacks_create = None,
      stacks_delete = None,
      heat_get = script [] Raises\<rparr>"

declare stack_poll.simps [code]

section \<open>Lookups on the catalogue\<close>

lemma service_matches_calls [simp]:
  "service_matches (c\<lparr>calls := ks\<rparr>) n = service_matches c n"
  by (simp add: service_matches_def)

lemma endpoint_matches_calls [simp]:
  "endpoint_matches (c\<lparr>calls := ks\<rparr>) i r pu iu au = endpoint_matches c i r pu iu au"
  by (simp add: endpoint_matches_def)

lemma is_mutation_simps [simp]:
  "\<not> is_mutation ServicesList" "\<not> is_mutation EndpointsList"
  "is_mutation (ServicesCreate a b d)" "is_mutation (ServicesDelete i)"
  "is_mutation (EndpointsCreate i r pu iu au)" "is_mutation (EndpointsDelete i)"
  by (simp_all add: is_mutation_def)

lemma issued_listed [simp]: "issued c (c\<lparr>calls := calls c @ ks\<rparr>) = ks"
  by (simp add: issued_def)

lemma mutations_listed [simp]: "mutations c (c\<lparr>calls := calls c @ ks\<rparr>) = filter is_mutation ks"
  by (simp add: mutations_def)

lemma get_service_many:
  "2 \<le> length (service_matches c n) \<Longrightarrow>
   get_service c n =
     (Inl (ValueError (str_nat (length (service_matches c n)) @ '' services with name '' @ n)),
      listed c [ServicesList])"
  by (auto simp add: get_service_def services_list_def service_matches_def Let_def)

lemma get_service_none:
  "service_matches c n = [] \<Longrightarrow>
   get_service c n = (Inl (KeyError (''No service with name '' @ n)), listed c [ServicesList])"
  by (simp add: get_service_def services_list_def service_matches_def Let_def)

lemma get_service_one:
  "service_matches c n = [s] \<Longrightarrow> get_service c n = (Inr s, listed c [ServicesList])"
  by (simp add: get_service_def services_list_def service_matches_def Let_def)

lemma service_exists_eq:
  "service_exists c n = (service_matches c n \<noteq> [], listed c [ServicesList])"
  by (auto simp add: service_exists_def services_list_def service_matches_def Let_def
        filter_empty_conv)

lemma ep_get_service_many:
  "2 \<le> length (service_matches c n) \<Longrightarrow>
   ep_get_service c n =
     (Inl (ValueError (str_nat (length (service_matches c n)) @ '' services with name '' @ n)),
      listed c [ServicesList])"
  by (auto simp add: ep_get_service_def services_list_def service_matches_def Let_def)

lemma ep_get_service_none:
  "service_matches c n = [] \<Longrightarrow>
   ep_get_service c n =
     (Inl (KeyError (''No keystone services with name '' @ n)), listed c [ServicesList])"
  by (simp add: ep_get_service_def services_list_def service_matches_def Let_def)

lemma ep_get_service_one:
  "service_matches c n = [s] \<Longrightarrow> ep_get_service c n = (Inr s, listed c [ServicesList])"
  by (simp add: ep_get_service_def services_list_def service_matches_def Let_def)

lemma endpoint_exists_eq:
  "endpoint_exists c i r pu iu au =
     (endpoint_matches c i r pu iu au \<noteq> [], listed c [EndpointsList])"
  by (simp add: endpoint_exists_def endpoints_list_def endpoint_matches_def Let_def)

lemma get_endpoint_many:
  "2 \<le> length (endpoint_matches c i r pu iu au) \<Longrightarrow>
   \<exists>m. get_endpoint c i r pu iu au = (Inl (ValueError m), listed c [EndpointsList])"
  by (auto simp add: get_endpoint_def endpoints_list_def endpoint_matches_def Let_def)

lemma get_endpoint_none:
  "endpoint_matches c i r pu iu au = [] \<Longrightarrow>
   \<exists>m. get_endpoint c i r pu iu au = (Inl (KeyError m), listed c [EndpointsList])"
  by (simp add: get_endpoint_def endpoints_list_def endpoint_matches_def Let_def)

lemma get_endpoint_one:
  "endpoint_matches c i r pu iu au = [e] \<Longrightarrow>
   get_endpoint c i r pu iu au = (Inr e, listed c [EndpointsList])"
  by (simp add: get_endpoint_def endpoints_list_def endpoint_matches_def Let_def)

section \<open>Reconciliation by number of matches\<close>

lemma svc_present_many:
  assumes "2 \<le> length (service_matches c n)"
  shows "is_ambiguity (fst (ensure_service_exists c new_id n ty d cm))"
    and "mutations c (snd (ensure_service_exists c new_id n ty d cm)) = []"
  using assms by (simp_all add: ensure_service_exists_def get_service_many is_ambiguity_def)

lemma svc_absent_many:
  assumes "2 \<le> length (service_matches c n)"
  shows "is_ambiguity (fst (ensure_service_absent c n False))"
    and "mutations c (snd (ensure_service_absent c n cm)) = []"
    and "fst (ensure_service_absent c n True) = Inr (Some True)"
proof -
  from assms have ne: "service_matches c n \<noteq> []" by auto
  from assms have m: "2 \<le> length (service_matches (listed c [ServicesList]) n)" by simp
  show "is_ambiguity (fst (ensure_service_absent c n False))"
    using ne by (simp add: ensure_service_absent_def service_exists_eq get_service_many[OF m]
                   is_ambiguity_def)
  show "mutations c (snd (ensure_service_absent c n cm)) = []"
    using ne by (simp add: ensure_service_absent_def service_exists_eq get_service_many[OF m])
  show "fst (ensure_service_absent c n True) = Inr (Some True)"
    using ne by (simp add: ensure_service_absent_def service_exists_eq)
qed

lemma ep_present_many:
  assumes "service_matches c sn = [s]" "2 \<le> length (endpoint_matches c (svc_id s) r pu iu au)"
  shows "is_ambiguity (fst (ensure_endpoint_exists c new_id sn r pu iu au cm))"
    and "mutations c (snd (ensure_endpoint_exists c new_id sn r pu iu au cm)) = []"
proof -
  from assms(2)
  have "2 \<le> length (endpoint_matches (listed c [ServicesList]) (svc_id s) r pu iu au)" by simp
  from get_endpoint_many[OF this] obtain m where
    g: "get_endpoint (listed c [ServicesList]) (svc_id s) r pu iu au =
          (Inl (ValueError m), listed c [ServicesList, EndpointsList])"
    by auto
  show "is_ambiguity (fst (ensure_endpoint_exists c new_id sn r pu iu au cm))"
    by (simp add: ensure_endpoint_exists_def ep_get_service_one[OF assms(1)] g is_ambiguity_def)
  show "mutations c (snd (ensure_endpoint_exists c new_id sn r pu iu au cm)) = []"
    by (simp add: ensure_endpoint_exists_def ep_get_service_one[OF assms(1)] g)
qed

lemma ep_absent_many:
  assumes "service_matches c sn = [s]" "2 \<le> length (endpoint_matches c (svc_id s) r pu iu au)"
  shows "is_ambiguity (fst (ensure_endpoint_absent c sn r pu iu au False))"
    and "mutations c (snd (ensure_endpoint_absent c sn r pu iu au cm)) = []"
    and "fst (ensure_endpoint_absent c sn r pu iu au True) = Inr (Some True)"
proof -
  from assms(2) have ne: "endpoint_matches c (svc_id s) r pu iu au \<noteq> []" by auto
  from assms(2)
  have "2 \<le> length (endpoint_matches (listed c [ServicesList, EndpointsList]) (svc_id s) r pu iu au)"
    by simp
  from get_endpoint_many[OF this] obtain m where
    g: "get_endpoint (listed c [ServicesList, EndpointsList]) (svc_id s) r pu iu au
          = (Inl (ValueError m), listed c [ServicesList, EndpointsList, EndpointsList])"
    by auto
  show "is_ambiguity (fst (ensure_endpoint_absent c sn r pu iu au False))"
    using ne by (simp add: ensure_endpoint_absent_def ep_get_service_one[OF assms(1)]
                   endpoint_exists_eq g is_ambiguity_def)
  show "mutations c (snd (ensure_endpoint_absent c sn r pu iu au cm)) = []"
    using ne by (simp add: ensure_endpoint_absent_def ep_get_service_one[OF assms(1)]
                   endpoint_exists_eq g)
  show "fst (ensure_endpoint_absent c sn r pu iu au True) = Inr (Some True)"
    using ne by (simp add: ensure_endpoint_absent_def ep_get_service_one[OF assms(1)]
                   endpoint_exists_eq)
qed

lemma ep_service_many:
  assumes "2 \<le> length (service_matches c sn)"
  shows "is_ambiguity (fst (ensure_endpoint_exists c new_id sn r pu iu au cm))"
    and "mutations c (snd (ensure_endpoint_exists c new_id sn r pu iu au cm)) = []"
    and "is_ambiguity (fst (ensure_endpoint_absent c sn r pu iu au cm))"
    and "mutations c (snd (ensure_endpoint_absent c sn r pu iu au cm)) = []"
  by (simp_all add: ensure_endpoint_exists_def ensure_endpoint_absent_def
        ep_get_service_many[OF assms] is_ambiguity_def)

lemma svc_present_none:
  assumes "service_matches c n = []"
  shows "ensure_service_exists c new_id n ty d False =
           (Inr (True, Some new_id),
            c\<lparr>services := services c @
                 [\<lparr>svc_id = new_id, svc_name = n, svc_type = ty, svc_description = d\<rparr>],
              calls := calls c @ [ServicesList, ServicesCreate n ty d]\<rparr>)"
    and "ensure_service_exists c new_id n ty d True = (Inr (True, None), listed c [ServicesList])"
  by (simp_all add: ensure_service_exists_def get_service_none[OF assms] services_create_def
        Let_def)

lemma svc_present_one:
  assumes "service_matches c n = [s]"
  shows "ensure_service_exists c new_id n ty d cm =
           (Inr (False, Some (svc_id s)), listed c [ServicesList])"
  by (simp add: ensure_service_exists_def get_service_one[OF assms])

lemma ep_present_none:
  assumes "service_matches c sn = [s]" "endpoint_matches c (svc_id s) r pu iu au = []"
  shows "ensure_endpoint_exists c new_id sn r pu iu au False =
           (Inr (True, Some new_id),
            c\<lparr>endpoints := endpoints c @
                 [\<lparr>ep_id = new_id, ep_service_id = svc_id s, ep_region = r,
                   ep_publicurl = pu, ep_internalurl = iu, ep_adminurl = au\<rparr>],
              calls := calls c @
                 [ServicesList, EndpointsList, EndpointsCreate (svc_id s) r pu iu au]\<rparr>)"
    and "ensure_endpoint_exists c new_id sn r pu iu au True =
           (Inr (True, None), listed c [ServicesList, EndpointsList])"
proof -
  from assms(2) have "endpoint_matches (listed c [ServicesList]) (svc_id s) r pu iu au = []"
    by simp
  from get_endpoint_none[OF this] obtain m where
    g: "get_endpoint (listed c [ServicesList]) (svc_id s) r pu iu au =
          (Inl (KeyError m), listed c [ServicesList, EndpointsList])"
    by auto
  show "ensure_endpoint_exists c new_id sn r pu iu au False =
           (Inr (True, Some new_id),
            c\<lparr>endpoints := endpoints c @
                 [\<lparr>ep_id = new_id, ep_service_id = svc_id s, ep_region = r,
                   ep_publicurl = pu, ep_internalurl = iu, ep_adminurl = au\<rparr>],
              calls := calls c @
                 [ServicesList, EndpointsList, EndpointsCreate (svc_id s) r pu iu au]\<rparr>)"
    by (simp add: ensure_endpoint_exists_def ep_get_service_one[OF assms(1)] g
          endpoints_create_def Let_def)
  show "ensure_endpoint_exists c new_id sn r pu iu au True =
           (Inr (True, None), listed c [ServicesList, EndpointsList])"
    by (simp add: ensure_endpoint_exists_def ep_get_service_one[OF assms(1)] g)
qed

lemma ep_present_one:
  assumes "service_matches c sn = [s]" "endpoint_matches c (svc_id s) r pu iu au = [e]"
  shows "ensure_endpoint_exists c new_id sn r pu iu au cm =
           (Inr (False, Some (ep_id e)), listed c [ServicesList, EndpointsList])"
proof -
  from assms(2) have "endpoint_matches (listed c [ServicesList]) (svc_id s) r pu iu au = [e]"
    by simp
  from get_endpoint_one[OF this] show ?thesis
    by (simp add: ensure_endpoint_exists_def ep_get_service_one[OF assms(1)])
qed

lemma ep_service_none:
  assumes "service_matches c sn = []"
  shows "ensure_endpoint_exists c new_id sn r pu iu au cm =
           (Inl (KeyError (''No keystone services with name '' @ sn)), listed c [ServicesList])"
    and "ensure_endpoint_absent c sn r pu iu au cm =
           (Inl (KeyError (''No keystone services with name '' @ sn)), listed c [ServicesList])"
  by (simp_all add: ensure_endpoint_exists_def ensure_endpoint_absent_def
        ep_get_service_none[OF assms])

section \<open>The polling loop\<close>

lemma in_progress_iff:
  "in_progress heat stack_name operation k = (\<forall>i<k. other_status operation (heat stack_name i))"
  by (induction k) (auto simp: less_Suc_eq)

lemma stack_poll_other:
  assumes "other_status operation (heat stack_name n)"
  shows "stack_poll heat stack_name operation existed n slept =
         stack_poll heat stack_name operation (existed @ [''yes'']) (Suc n) (slept @ [5])"
proof -
  from assms obtain status where s: "heat stack_name n = Stack status"
      "operation @ ''_COMPLETE'' \<noteq> status" "operation @ ''_FAILED'' \<noteq> status"
    by (auto simp: other_status_def split: lookup.splits)
  show ?thesis
    by (subst stack_poll.simps[of heat stack_name operation existed n slept]) (simp add: s)
qed

lemma stack_poll_skip:
  "(\<forall>i<k. other_status operation (heat stack_name (n + i))) \<Longrightarrow>
   stack_poll heat stack_name operation existed n slept =
   stack_poll heat stack_name operation (existed @ replicate k ''yes'') (n + k)
     (slept @ replicate k 5)"
proof (induction k arbitrary: n existed slept)
  case 0
  then show ?case by simp
next
  case (Suc k)
  from Suc.prems have first: "other_status operation (heat stack_name n)"
    by (metis add.right_neutral zero_less_Suc)
  from Suc.prems have rest: "\<forall>i<k. other_status operation (heat stack_name (Suc n + i))"
    by (metis Suc_less_eq add_Suc_shift)
  have "stack_poll heat stack_name operation existed n slept =
        stack_poll heat stack_name operation (existed @ [''yes'']) (Suc n) (slept @ [5])"
    by (rule stack_poll_other) (rule first)
  also have "\<dots> = stack_poll heat stack_name operation ((existed @ [''yes'']) @ replicate k ''yes'')
                      (Suc n + k) ((slept @ [5]) @ replicate k 5)"
    by (rule Suc.IH) (rule rest)
  finally show ?case by (simp add: replicate_app_Cons_same)
qed

lemma stack_operation_skip:
  assumes "in_progress heat stack_name operation k"
  shows "stack_operation heat stack_name operation =
         stack_poll heat stack_name operation (replicate k ''yes'') k (replicate k 5)"
proof -
  from assms have "\<forall>i<k. other_status operation (heat stack_name (0 + i))"
    by (simp add: in_progress_iff)
  then have "stack_poll heat stack_name operation [] 0 [] =
     stack_poll heat stack_name operation ([] @ replicate k ''yes'') (0 + k) ([] @ replicate k 5)"
    by (rule stack_poll_skip)
  then show ?thesis
    by (simp add: stack_operation_def)
qed

lemma stack_poll_complete:
  "heat stack_name n = Stack (operation @ ''_COMPLETE'') \<Longrightarrow>
   stack_poll heat stack_name operation existed n slept =
     Some \<lparr>outcome = [(''changed'', PyBool True),
                      (''output'', PyStr (''Stack '' @ operation @ '' complete''))],
           polls = Suc n, sleeps = slept\<rparr>"
  by (subst stack_poll.simps[of heat stack_name operation existed n slept]) simp

lemma stack_poll_failed:
  "heat stack_name n = Stack (operation @ ''_FAILED'') \<Longrightarrow>
   stack_poll heat stack_name operation existed n slept =
     Some \<lparr>outcome = [(''failed'', PyBool True),
                      (''output'', PyStr (''Stack '' @ operation @ '' failed''))],
           polls = Suc n, sleeps = slept\<rparr>"
  by (subst stack_poll.simps[of heat stack_name operation existed n slept]) simp

lemma stack_poll_raises:
  "heat stack_name n = Raises \<Longrightarrow>
   stack_poll heat stack_name operation existed n slept =
     Some \<lparr>outcome = [(''changed'', PyBool True),
                      (''output'', PyStr (if ''yes'' \<in> set existed then ''Stack Deleted''
                                          else ''Stack Not Found''))],
           polls = Suc n, sleeps = slept\<rparr>"
  by (subst stack_poll.simps[of heat stack_name operation existed n slept]) simp

text \<open>
  C5. For every operation and every sequence of lookup answers: when the first \<open>k\<close>
  answers are statuses other than \<open><operation>_COMPLETE\<close> and \<open><operation>_FAILED\<close>
  and the next one is \<open><operation>_COMPLETE\<close>, the loop returns the success outcome
  after \<open>k + 1\<close> lookups and \<open>k\<close> sleeps of 5 each; when the next one is
  \<open><operation>_FAILED\<close>, it returns the failure outcome, again after \<open>k + 1\<close> lookups
  and \<open>k\<close> sleeps, so with no lookup after the failed status. In particular the answers
  PENDING, PENDING, CREATE_COMPLETE give success after exactly two sleeps, and the
  answer CREATE_FAILED gives failure with no sleep.
\<close>

theorem stack_operation_polling:
  "(in_progress heat stack_name operation k \<and>
      heat stack_name k = Stack (operation @ ''_COMPLETE'') \<longrightarrow>
      stack_operation heat stack_name operation =
        Some \<lparr>outcome = [(''changed'', PyBool True),
                         (''output'', PyStr (''Stack '' @ operation @ '' complete''))],
              polls = Suc k, sleeps = replicate k 5\<rparr>) \<and>
   (in_progress heat stack_name operation k \<and>
      heat stack_name k = Stack (operation @ ''_FAILED'') \<longrightarrow>
      stack_operation heat stack_name operation =
        Some \<lparr>outcome = [(''failed'', PyBool True),
                         (''output'', PyStr (''Stack '' @ operation @ '' failed''))],
              polls = Suc k, sleeps = replicate k 5\<rparr>) \<and>
   stack_operation (script [Stack ''PENDING'', Stack ''PENDING'', Stack ''CREATE_COMPLETE''] after)
       stack_name ''CREATE'' =
     Some \<lparr>outcome = [(''changed'', PyBool True), (''output'', PyStr ''Stack CREATE complete'')],
           polls = 3, sleeps = [5, 5]\<rparr> \<and>
   stack_operation (script [Stack ''CREATE_FAILED''] after) stack_name ''CREATE'' =
     Some \<lparr>outcome = [(''failed'', PyBool True), (''output'', PyStr ''Stack CREATE failed'')],
           polls = 1, sleeps = []\<rparr>"
proof (intro conjI impI)
  assume "in_progress heat stack_name operation k \<and>
          heat stack_name k = Stack (operation @ ''_COMPLETE'')"
  then have p: "in_progress heat stack_name operation k"
    and "heat stack_name k = Stack (operation @ ''_COMPLETE'')" by simp_all
  then show "stack_operation heat stack_name operation =
        Some \<lparr>outcome = [(''changed'', PyBool True),
                         (''output'', PyStr (''Stack '' @ operation @ '' complete''))],
              polls = Suc k, sleeps = replicate k 5\<rparr>"
    by (simp add: stack_operation_skip[OF p] stack_poll_complete)
next
  assume "in_progress heat stack_name operation k \<and>
          heat stack_name k = Stack (operation @ ''_FAILED'')"
  then have p: "in_progress heat stack_name operation k"
    and "heat stack_name k = Stack (operation @ ''_FAILED'')" by simp_all
  then show "stack_operation heat stack_name operation =
        Some \<lparr>outcome = [(''failed'', PyBool True),
                         (''output'', PyStr (''Stack '' @ operation @ '' failed''))],
              polls = Suc k, sleeps = replicate k 5\<rparr>"
    by (simp add: stack_operation_skip[OF p] stack_poll_failed)
next
  let ?h = "script [Stack ''PENDING'', Stack ''PENDING'', Stack ''CREATE_COMPLETE''] after"
  have p: "in_progress ?h stack_name ''CREATE'' 2"
    by (simp add: numeral_2_eq_2 other_status_def script_def)
  have "?h stack_name 2 = Stack (''CREATE'' @ ''_COMPLETE'')"
    by (simp add: script_def)
  then show "stack_operation ?h stack_name ''CREATE'' =
     Some \<lparr>outcome = [(''changed'', PyBool True), (''output'', PyStr ''Stack CREATE complete'')],
           polls = 3, sleeps = [5, 5]\<rparr>"
    by (simp add: stack_operation_skip[OF p] stack_poll_complete numeral_2_eq_2 numeral_3_eq_3)
next
  let ?h = "script [Stack ''CREATE_FAILED''] after"
  have p: "in_progress ?h stack_name ''CREATE'' 0"
    by simp
  have "?h stack_name 0 = Stack (''CREATE'' @ ''_FAILED'')"
    by (simp add: script_def)
  then show "stack_operation ?h stack_name ''CREATE'' =
     Some \<lparr>outcome = [(''failed'', PyBool True), (''output'', PyStr ''Stack CREATE failed'')],
           polls = 1, sleeps = []\<rparr>"
    by (simp add: stack_operation_skip[OF p] stack_poll_failed)
qed

theorem stack_operation_polling_witness:
  "in_progress (script [Stack ''DELETE_IN_PROGRESS''] (Stack ''DELETE_COMPLETE'')) ''web'' ''DELETE'' 1 \<and>
   script [Stack ''DELETE_IN_PROGRESS''] (Stack ''DELETE_COMPLETE'') ''web'' 1 =
     Stack (''DELETE'' @ ''_COMPLETE'') \<and>
   stack_operation (script [Stack ''DELETE_IN_PROGRESS''] (Stack ''DELETE_COMPLETE'')) ''web'' ''DELETE'' =
     Some \<lparr>outcome = [(''changed'', PyBool True), (''output'', PyStr ''Stack DELETE complete'')],
           polls = 2, sleeps = [5]\<rparr> \<and>
   in_progress (script [Stack ''DELETE_IN_PROGRESS''] (Stack ''DELETE_FAILED'')) ''web'' ''DELETE'' 1 \<and>
   script [Stack ''DELETE_IN_PROGRESS''] (Stack ''DELETE_FAILED'') ''web'' 1 =
     Stack (''DELETE'' @ ''_FAILED'') \<and>
   stack_operation (script [Stack ''DELETE_IN_PROGRESS''] (Stack ''DELETE_FAILED'')) ''web'' ''DELETE'' =
     Some \<lparr>outcome = [(''failed'', PyBool True), (''output'', PyStr ''Stack DELETE failed'')],
           polls = 2, sleeps = [5]\<rparr>"
  using stack_operation_polling
          [of "script [Stack ''DELETE_IN_PROGRESS''] (Stack ''DELETE_COMPLETE'')" "''web''" "''DELETE''" 1]
        stack_operation_polling
          [of "script [Stack ''DELETE_IN_PROGRESS''] (Stack ''DELETE_FAILED'')" "''web''" "''DELETE''" 1]
  by (simp add: other_status_def script_def)

text \<open>
  C3, counterexample. The outcome is not determined by the operation: a DELETE
  operation whose first lookup raises yields 'Stack Not Found', and a CREATE operation
  whose lookup raises after one successful lookup yields 'Stack Deleted'.
\<close>

theorem lookup_raises_by_operation_counterexample:
  "stack_operation (script [] Raises) ''web'' ''DELETE'' =
     Some \<lparr>outcome = [(''changed'', PyBool True), (''output'', PyStr ''Stack Not Found'')],
           polls = 1, sleeps = []\<rparr> \<and>
   stack_operation (script [Stack ''CREATE_IN_PROGRESS''] Raises) ''web'' ''CREATE'' =
     Some \<lparr>outcome = [(''changed'', PyBool True), (''output'', PyStr ''Stack Deleted'')],
           polls = 2, sleeps = [5]\<rparr>"
proof -
  have a: "script [] Raises ''web'' 0 = Raises"
    by (simp add: script_def)
  have p: "in_progress (script [Stack ''CREATE_IN_PROGRESS''] Raises) ''web'' ''CREATE'' (Suc 0)"
    by (simp add: other_status_def script_def)
  have b: "script [Stack ''CREATE_IN_PROGRESS''] Raises ''web'' (Suc 0) = Raises"
    by (simp add: script_def)
  have first: "stack_operation (script [] Raises) ''web'' ''DELETE'' =
     Some \<lparr>outcome = [(''changed'', PyBool True), (''output'', PyStr ''Stack Not Found'')],
           polls = 1, sleeps = []\<rparr>"
    by (simp add: stack_operation_def
          stack_poll_raises[where heat = "script [] Raises" and stack_name = "''web''"
            and n = 0, OF a])
  have second: "stack_operation (script [Stack ''CREATE_IN_PROGRESS''] Raises) ''web'' ''CREATE'' =
     Some \<lparr>outcome = [(''changed'', PyBool True), (''output'', PyStr ''Stack Deleted'')],
           polls = 2, sleeps = [5]\<rparr>"
    by (simp add: stack_operation_skip[OF p]
          stack_poll_raises[where heat = "script [Stack ''CREATE_IN_PROGRESS''] Raises"
            and stack_name = "''web''" and n = "Suc 0", OF b])
  from first second show ?thesis by simp
qed

text \<open>
  C3, amended. For every operation, when the first \<open>k\<close> lookups return statuses that
  keep the loop polling and the next lookup raises, the outcome is determined by
  whether a lookup has succeeded before: with none (\<open>k = 0\<close>, the lookup raises on
  the very first poll) it is 'Stack Not Found', otherwise it is 'Stack Deleted',
  whatever the operation. Both outcomes carry \<^verbatim>\<open>changed=True\<close>. So a CREATE operation
  whose first lookup raises yields 'Stack Not Found', and a DELETE operation yields
  'Stack Deleted' when an earlier lookup found the stack.
\<close>

theorem lookup_raises_outcome:
  "in_progress heat stack_name operation k \<Longrightarrow> heat stack_name k = Raises \<Longrightarrow>
   stack_operation heat stack_name operation =
     Some \<lparr>outcome = [(''changed'', PyBool True),
                      (''output'', PyStr (if k = 0 then ''Stack Not Found''
                                          else ''Stack Deleted''))],
           polls = Suc k, sleeps = replicate k 5\<rparr>"
  by (simp add: stack_operation_skip stack_poll_raises)

theorem lookup_raises_outcome_witness:
  "in_progress (script [] Raises) ''web'' ''CREATE'' 0 \<and>
   script [] Raises ''web'' 0 = Raises \<and>
   stack_operation (script [] Raises) ''web'' ''CREATE'' =
     Some \<lparr>outcome = [(''changed'', PyBool True), (''output'', PyStr ''Stack Not Found'')],
           polls = 1, sleeps = []\<rparr> \<and>
   in_progress (script [Stack ''DELETE_IN_PROGRESS''] Raises) ''web'' ''DELETE'' 1 \<and>
   script [Stack ''DELETE_IN_PROGRESS''] Raises ''web'' 1 = Raises \<and>
   stack_operation (script [Stack ''DELETE_IN_PROGRESS''] Raises) ''web'' ''DELETE'' =
     Some \<lparr>outcome = [(''changed'', PyBool True), (''output'', PyStr ''Stack Deleted'')],
           polls = 2, sleeps = [5]\<rparr>"
proof -
  have h1: "in_progress (script [] Raises) ''web'' ''CREATE'' 0" by simp
  have h2: "script [] Raises ''web'' 0 = Raises" by (simp add: script_def)
  have h3: "in_progress (script [Stack ''DELETE_IN_PROGRESS''] Raises) ''web'' ''DELETE'' 1"
    by (simp add: other_status_def script_def)
  have h4: "script [Stack ''DELETE_IN_PROGRESS''] Raises ''web'' 1 = Raises"
    by (simp add: script_def)
  show ?thesis
    using h1 h2 h3 h4 lookup_raises_outcome[OF h1 h2] lookup_raises_outcome[OF h3 h4]
    by simp
qed

text \<open>
  C8. If any of the four credentials taken from the environment (user name, password,
  tenant name, auth URL) is the empty string, the heat module ends with an uncaught
  exception before any stack is created or deleted: the module-level check prints its
  message and goes on, and \<^verbatim>\<open>main()\<close> reaches the Keystone client, which it calls outside
  any \<^verbatim>\<open>try\<close> and before the first \<^verbatim>\<open>heat.stacks\<close> call, or stops earlier on the
  template file or on the failed import.
\<close>

theorem empty_credential_fails_before_stack_calls:
  "Some [] \<in> set [os_username env, os_password env, os_tenant_name env, os_auth_url env] \<Longrightarrow>
   \<exists>e evs. heat_module w env params = Some (Uncaught e, evs) \<and>
           stack_calls evs = [] \<and>
           Print ''system environment variables are required for keystone authentication''
             \<in> set evs"
  by (auto simp add: heat_module_def heat_main_def auth_provider_def credential_check_def
        stack_calls_def is_stack_call_def Let_def split: sum.splits)

theorem empty_credential_fails_before_stack_calls_witness:
  "Some [] \<in> set [os_username \<lparr>os_username = Some ''admin'', os_password = Some [],
                      os_tenant_name = Some ''demo'',
                      os_auth_url = Some ''http://keystone:5000/v2.0''\<rparr>,
                  os_password \<lparr>os_username = Some ''admin'', os_password = Some [],
                      os_tenant_name = Some ''demo'',
                      os_auth_url = Some ''http://keystone:5000/v2.0''\<rparr>,
                  os_tenant_name \<lparr>os_username = Some ''admin'', os_password = Some [],
                      os_tenant_name = Some ''demo'',
                      os_auth_url = Some ''http://keystone:5000/v2.0''\<rparr>,
                  os_auth_url \<lparr>os_username = Some ''admin'', os_password = Some [],
                      os_tenant_name = Some ''demo'',
                      os_auth_url = Some ''http://keystone:5000/v2.0''\<rparr>] \<and>
   (\<exists>e evs.
      heat_module demo_world
        \<lparr>os_username = Some ''admin'', os_password = Some [], os_tenant_name = Some ''demo'',
         os_auth_url = Some ''http://keystone:5000/v2.0''\<rparr>
        \<lparr>h_action = ''delete'', h_stack_name = ''web'', h_template = ''web.json'',
         h_template_parameters = [], h_tags = None\<rparr> = Some (Uncaught e, evs) \<and>
      stack_calls evs = [] \<and>
      Print ''system environment variables are required for keystone authentication''
        \<in> set evs) \<and>
   heat_module demo_world
     \<lparr>os_username = Some ''admin'', os_password = Some [], os_tenant_name = Some ''demo'',
      os_auth_url = Some ''http://keystone:5000/v2.0''\<rparr>
     \<lparr>h_action = ''delete'', h_stack_name = ''web'', h_template = ''web.json'',
      h_template_parameters = [], h_tags = None\<rparr> =
   Some (Uncaught (OtherError ''AuthenticationError''),
         [Print ''system environment variables are required for keystone authentication'',
          KeystoneClient (Some ''admin'') (Some []) (Some ''demo'')
            (Some ''http://keystone:5000/v2.0'')])"
proof -
  let ?env = "\<lparr>os_username = Some ''admin'', os_password = Some [],
               os_tenant_name = Some ''demo'',
               os_auth_url = Some ''http://keystone:5000/v2.0''\<rparr>"
  let ?params = "\<lparr>h_action = ''delete'', h_stack_name = ''web'', h_template = ''web.json'',
                  h_template_parameters = [], h_tags = None\<rparr>"
  have h: "Some [] \<in> set [os_username ?env, os_password ?env, os_tenant_name ?env,
                           os_auth_url ?env]"
    by simp
  note ex = empty_credential_fails_before_stack_calls[OF h, of demo_world ?params]
  have ev: "heat_module demo_world ?env ?params =
      Some (Uncaught (OtherError ''AuthenticationError''),
         [Print ''system environment variables are required for keystone authentication'',
          KeystoneClient (Some ''admin'') (Some []) (Some ''demo'')
            (Some ''http://keystone:5000/v2.0'')])"
    by (simp add: heat_module_def heat_main_def auth_provider_def credential_check_def
          demo_world_def)
  from h ex ev show ?thesis by (intro conjI)
qed

section \<open>Properties of the Keystone reconcilers\<close>

text \<open>
  C1, counterexample. Two services are named glance. In check mode
  \<^verbatim>\<open>ensure_service_absent\<close> does not fail with an ambiguity error: it returns
  \<^verbatim>\<open>True\<close>.
\<close>

theorem ambiguous_absent_check_mode_counterexample:
  "2 \<le> length (service_matches (remote [glance ''s1'', glance ''s2''] []) ''glance'') \<and>
   fst (ensure_service_absent (remote [glance ''s1'', glance ''s2''] []) ''glance'' True) =
     Inr (Some True) \<and>
   \<not> is_ambiguity
       (fst (ensure_service_absent (remote [glance ''s1'', glance ''s2''] []) ''glance'' True))"
  by (simp add: remote_def glance_def service_matches_def ensure_service_absent_def
        service_exists_def services_list_def is_ambiguity_def)

text \<open>
  C1, amended. For every descriptor that matches two or more remote resources, the
  present path fails with \<^verbatim>\<open>ValueError\<close> and issues no create or delete call in both
  modes; the absent path fails with \<^verbatim>\<open>ValueError\<close> and issues no create or delete call
  when check mode is off, and in check mode returns \<^verbatim>\<open>True\<close> without an error and
  without a create or delete call. For an endpoint the descriptor is the id of the one
  service the name resolves to, the region and the three URLs; when the service name
  itself matches two or more services, both endpoint paths fail with \<^verbatim>\<open>ValueError\<close> in
  both modes and issue no create or delete call.
\<close>

theorem ambiguous_match:
  "(2 \<le> length (service_matches c name) \<longrightarrow>
      is_ambiguity (fst (ensure_service_exists c new_id name ty d check_mode)) \<and>
      mutations c (snd (ensure_service_exists c new_id name ty d check_mode)) = [] \<and>
      is_ambiguity (fst (ensure_service_absent c name False)) \<and>
      mutations c (snd (ensure_service_absent c name False)) = [] \<and>
      fst (ensure_service_absent c name True) = Inr (Some True) \<and>
      mutations c (snd (ensure_service_absent c name True)) = []) \<and>
   (service_matches c sn = [s] \<and> 2 \<le> length (endpoint_matches c (svc_id s) r pu iu au) \<longrightarrow>
      is_ambiguity (fst (ensure_endpoint_exists c new_id sn r pu iu au check_mode)) \<and>
      mutations c (snd (ensure_endpoint_exists c new_id sn r pu iu au check_mode)) = [] \<and>
      is_ambiguity (fst (ensure_endpoint_absent c sn r pu iu au False)) \<and>
      mutations c (snd (ensure_endpoint_absent c sn r pu iu au False)) = [] \<and>
      fst (ensure_endpoint_absent c sn r pu iu au True) = Inr (Some True) \<and>
      mutations c (snd (ensure_endpoint_absent c sn r pu iu au True)) = []) \<and>
   (2 \<le> length (service_matches c sn') \<longrightarrow>
      is_ambiguity (fst (ensure_endpoint_exists c new_id sn' r pu iu au check_mode)) \<and>
      mutations c (snd (ensure_endpoint_exists c new_id sn' r pu iu au check_mode)) = [] \<and>
      is_ambiguity (fst (ensure_endpoint_absent c sn' r pu iu au check_mode)) \<and>
      mutations c (snd (ensure_endpoint_absent c sn' r pu iu au check_mode)) = [])"
  by (intro conjI impI)
     (simp_all add: svc_present_many svc_absent_many ep_present_many ep_absent_many
        ep_service_many)

theorem ambiguous_match_witness:
  "2 \<le> length (service_matches
       (remote [glance ''s1'', glance ''s2'', glance ''s3''\<lparr>svc_name := ''nova''\<rparr>]
          [glance_endpoint ''e1'', glance_endpoint ''e2''\<lparr>ep_service_id := ''s3''\<rparr>,
           glance_endpoint ''e3''\<lparr>ep_service_id := ''s3''\<rparr>]) ''glance'') \<and>
   service_matches
       (remote [glance ''s1'', glance ''s2'', glance ''s3''\<lparr>svc_name := ''nova''\<rparr>]
          [glance_endpoint ''e1'', glance_endpoint ''e2''\<lparr>ep_service_id := ''s3''\<rparr>,
           glance_endpoint ''e3''\<lparr>ep_service_id := ''s3''\<rparr>]) ''nova'' =
     [glance ''s3''\<lparr>svc_name := ''nova''\<rparr>] \<and>
   2 \<le> length (endpoint_matches
       (remote [glance ''s1'', glance ''s2'', glance ''s3''\<lparr>svc_name := ''nova''\<rparr>]
          [glance_endpoint ''e1'', glance_endpoint ''e2''\<lparr>ep_service_id := ''s3''\<rparr>,
           glance_endpoint ''e3''\<lparr>ep_service_id := ''s3''\<rparr>])
       ''s3'' (Some ''aw1'') (Some ''https://glance/'') (Some ''http://glance:9292/'')
       (Some ''https://glance/'')) \<and>
   is_ambiguity (fst (ensure_service_exists
       (remote [glance ''s1'', glance ''s2'', glance ''s3''\<lparr>svc_name := ''nova''\<rparr>]
          [glance_endpoint ''e1'', glance_endpoint ''e2''\<lparr>ep_service_id := ''s3''\<rparr>,
           glance_endpoint ''e3''\<lparr>ep_service_id := ''s3''\<rparr>])
       ''s9'' ''glance'' ''image'' ''Not provided'' True)) \<and>
   fst (ensure_service_absent
       (remote [glance ''s1'', glance ''s2'', glance ''s3''\<lparr>svc_name := ''nova''\<rparr>]
          [glance_endpoint ''e1'', glance_endpoint ''e2''\<lparr>ep_service_id := ''s3''\<rparr>,
           glance_endpoint ''e3''\<lparr>ep_service_id := ''s3''\<rparr>]) ''glance'' True) =
     Inr (Some True) \<and>
   is_ambiguity (fst (ensure_endpoint_absent
       (remote [glance ''s1'', glance ''s2'', glance ''s3''\<lparr>svc_name := ''nova''\<rparr>]
          [glance_endpoint ''e1'', glance_endpoint ''e2''\<lparr>ep_service_id := ''s3''\<rparr>,
           glance_endpoint ''e3''\<lparr>ep_service_id := ''s3''\<rparr>])
       ''nova'' (Some ''aw1'') (Some ''https://glance/'') (Some ''http://glance:9292/'')
       (Some ''https://glance/'') False)) \<and>
   is_ambiguity (fst (ensure_endpoint_absent
       (remote [glance ''s1'', glance ''s2'', glance ''s3''\<lparr>svc_name := ''nova''\<rparr>]
          [glance_endpoint ''e1'', glance_endpoint ''e2''\<lparr>ep_service_id := ''s3''\<rparr>,
           glance_endpoint ''e3''\<lparr>ep_service_id := ''s3''\<rparr>])
       ''glance'' (Some ''aw1'') (Some ''https://glance/'') (Some ''http://glance:9292/'')
       (Some ''https://glance/'') True))"
proof -
  let ?c = "remote [glance ''s1'', glance ''s2'', glance ''s3''\<lparr>svc_name := ''nova''\<rparr>]
          [glance_endpoint ''e1'', glance_endpoint ''e2''\<lparr>ep_service_id := ''s3''\<rparr>,
           glance_endpoint ''e3''\<lparr>ep_service_id := ''s3''\<rparr>]"
  let ?s = "glance ''s3''\<lparr>svc_name := ''nova''\<rparr>"
  have h1: "2 \<le> length (service_matches ?c ''glance'')"
    by (simp add: remote_def glance_def service_matches_def)
  have h2: "service_matches ?c ''nova'' = [?s]"
    by (simp add: remote_def glance_def service_matches_def)
  have h3: "2 \<le> length (endpoint_matches ?c (svc_id ?s) (Some ''aw1'') (Some ''https://glance/'')
       (Some ''http://glance:9292/'') (Some ''https://glance/''))"
    by (simp add: remote_def glance_def glance_endpoint_def endpoint_matches_def
          endpoint_match_def)
  have i: "svc_id ?s = ''s3''" by (simp add: glance_def)
  show ?thesis
    using h1 h2 h3
      ambiguous_match[of ?c "''glance''" "''s9''" "''image''" "''Not provided''" True "''nova''" ?s
        "Some ''aw1''" "Some ''https://glance/''" "Some ''http://glance:9292/''"
        "Some ''https://glance/''" "''glance''"]
    unfolding i by blast
qed

text \<open>
  C2, the code at the failing input. One service is named glance, and one endpoint
  matches the descriptor. With check mode off, \<^verbatim>\<open>ensure_service_absent\<close> and
  \<^verbatim>\<open>ensure_endpoint_absent\<close> issue the one delete call and the resource is gone, but
  the value returned is \<^verbatim>\<open>None\<close>, not \<^verbatim>\<open>True\<close>: the functions end after the delete
  call without a \<^verbatim>\<open>return\<close>.
\<close>

theorem ensure_absent_returns_none:
  "ensure_service_absent (remote [glance ''s1''] []) ''glance'' False =
     (Inr None,
      \<lparr>services = [], endpoints = [],
        calls = [ServicesList, ServicesList, ServicesDelete ''s1'']\<rparr>) \<and>
   ensure_endpoint_absent (remote [glance ''s1''] [glance_endpoint ''e1'']) ''glance''
       (Some ''aw1'') (Some ''https://glance/'') (Some ''http://glance:9292/'')
       (Some ''https://glance/'') False =
     (Inr None,
      \<lparr>services = [glance ''s1''], endpoints = [],
        calls = [ServicesList, EndpointsList, EndpointsList, EndpointsDelete ''e1'']\<rparr>)"
  by (simp add: remote_def glance_def glance_endpoint_def ensure_service_absent_def
        ensure_endpoint_absent_def service_exists_def get_service_def ep_get_service_def
        services_list_def services_delete_def endpoint_exists_def get_endpoint_def
        endpoints_list_def endpoints_delete_def endpoint_match_def Let_def)

text \<open>
  C4. For every descriptor with zero remote matches, the present path with check mode
  off issues the lookup and exactly one create call, the catalogue grows by exactly the
  resource described, carrying the identifier the remote side assigned, and the result
  is \<^verbatim>\<open>(True, new id)\<close>; in check mode it issues the lookup and nothing else and the
  result is \<^verbatim>\<open>(True, None)\<close>. For an endpoint the descriptor is the id of the one
  service the name resolves to, the region and the three URLs.
\<close>

theorem ensure_present_zero_matches:
  "(service_matches c name = [] \<longrightarrow>
      ensure_service_exists c new_id name ty d False =
        (Inr (True, Some new_id),
         c\<lparr>services := services c @
              [\<lparr>svc_id = new_id, svc_name = name, svc_type = ty, svc_description = d\<rparr>],
           calls := calls c @ [ServicesList, ServicesCreate name ty d]\<rparr>) \<and>
      ensure_service_exists c new_id name ty d True =
        (Inr (True, None), c\<lparr>calls := calls c @ [ServicesList]\<rparr>)) \<and>
   (service_matches c sn = [s] \<and> endpoint_matches c (svc_id s) r pu iu au = [] \<longrightarrow>
      ensure_endpoint_exists c new_id sn r pu iu au False =
        (Inr (True, Some new_id),
         c\<lparr>endpoints := endpoints c @
              [\<lparr>ep_id = new_id, ep_service_id = svc_id s, ep_region = r,
                ep_publicurl = pu, ep_internalurl = iu, ep_adminurl = au\<rparr>],
           calls := calls c @
              [ServicesList, EndpointsList, EndpointsCreate (svc_id s) r pu iu au]\<rparr>) \<and>
      ensure_endpoint_exists c new_id sn r pu iu au True =
        (Inr (True, None), c\<lparr>calls := calls c @ [ServicesList, EndpointsList]\<rparr>))"
  by (intro conjI impI) (simp_all add: svc_present_none ep_present_none)

theorem ensure_present_zero_matches_witness:
  "service_matches (remote [glance ''s1''] []) ''nova'' = [] \<and>
   ensure_service_exists (remote [glance ''s1''] []) ''s2'' ''nova'' ''compute'' ''Not provided'' False =
     (Inr (True, Some ''s2''),
      \<lparr>services = [glance ''s1'',
                    \<lparr>svc_id = ''s2'', svc_name = ''nova'', svc_type = ''compute'',
                      svc_description = ''Not provided''\<rparr>],
        endpoints = [],
        calls = [ServicesList, ServicesCreate ''nova'' ''compute'' ''Not provided'']\<rparr>) \<and>
   service_matches (remote [glance ''s1''] []) ''glance'' = [glance ''s1''] \<and>
   endpoint_matches (remote [glance ''s1''] []) ''s1'' (Some ''aw1'') (Some ''https://glance/'')
       None None = [] \<and>
   ensure_endpoint_exists (remote [glance ''s1''] []) ''s2'' ''glance'' (Some ''aw1'')
       (Some ''https://glance/'') None None True =
     (Inr (True, None),
      \<lparr>services = [glance ''s1''], endpoints = [], calls = [ServicesList, EndpointsList]\<rparr>)"
proof -
  let ?c = "remote [glance ''s1''] []"
  have h1: "service_matches ?c ''nova'' = []"
    by (simp add: remote_def glance_def service_matches_def)
  have h2: "service_matches ?c ''glance'' = [glance ''s1'']"
    by (simp add: remote_def glance_def service_matches_def)
  have i: "svc_id (glance ''s1'') = ''s1''" by (simp add: glance_def)
  have h3: "endpoint_matches ?c (svc_id (glance ''s1'')) (Some ''aw1'') (Some ''https://glance/'')
       None None = []"
    by (simp add: remote_def endpoint_matches_def)
  from ensure_present_zero_matches[of ?c "''nova''" "''s2''" "''compute''" "''Not provided''"
        "''glance''" "glance ''s1''" "Some ''aw1''" "Some ''https://glance/''" None None]
    h1 h2 h3
  have "ensure_service_exists ?c ''s2'' ''nova'' ''compute'' ''Not provided'' False =
        (Inr (True, Some ''s2''),
         ?c\<lparr>services := services ?c @
              [\<lparr>svc_id = ''s2'', svc_name = ''nova'', svc_type = ''compute'',
                svc_description = ''Not provided''\<rparr>],
           calls := calls ?c @ [ServicesList, ServicesCreate ''nova'' ''compute'' ''Not provided'']\<rparr>)"
    and "ensure_endpoint_exists ?c ''s2'' ''glance'' (Some ''aw1'') (Some ''https://glance/'')
           None None True =
        (Inr (True, None), ?c\<lparr>calls := calls ?c @ [ServicesList, EndpointsList]\<rparr>)"
    by blast+
  then show ?thesis
    using h1 h2 h3 unfolding i by (simp add: remote_def)
qed

text \<open>
  C6. For every descriptor with exactly one remote match, the present path returns
  \<^verbatim>\<open>(False, id of the existing resource)\<close> in both modes and issues the lookup calls
  only. A service matches when its name equals the descriptor's; an endpoint matches
  when its service id, region, public URL, internal URL and admin URL all equal the
  descriptor's.
\<close>

theorem ensure_present_one_match:
  "(service_matches c name = [s] \<longrightarrow>
      ensure_service_exists c new_id name ty d check_mode =
        (Inr (False, Some (svc_id s)), c\<lparr>calls := calls c @ [ServicesList]\<rparr>)) \<and>
   (service_matches c sn = [s'] \<and> endpoint_matches c (svc_id s') r pu iu au = [e] \<longrightarrow>
      ensure_endpoint_exists c new_id sn r pu iu au check_mode =
        (Inr (False, Some (ep_id e)), c\<lparr>calls := calls c @ [ServicesList, EndpointsList]\<rparr>)) \<and>
   service_matches c name = filter (\<lambda>x. svc_name x = name) (services c) \<and>
   endpoint_matches c service_id r pu iu au =
     filter (\<lambda>x. ep_service_id x = service_id \<and> ep_region x = r \<and> ep_publicurl x = pu \<and>
                 ep_internalurl x = iu \<and> ep_adminurl x = au) (endpoints c) \<and>
   endpoint_match x service_id r pu iu au =
     (ep_service_id x = service_id \<and> ep_region x = r \<and> ep_publicurl x = pu \<and>
      ep_internalurl x = iu \<and> ep_adminurl x = au)"
  by (intro conjI impI)
     (simp_all add: svc_present_one ep_present_one service_matches_def endpoint_matches_def
        endpoint_match_def)

theorem ensure_present_one_match_witness:
  "service_matches (remote [glance ''s1''] [glance_endpoint ''e1'']) ''glance'' = [glance ''s1''] \<and>
   ensure_service_exists (remote [glance ''s1''] [glance_endpoint ''e1'']) ''s2'' ''glance''
       ''image'' ''Not provided'' False =
     (Inr (False, Some ''s1''),
      \<lparr>services = [glance ''s1''], endpoints = [glance_endpoint ''e1''],
        calls = [ServicesList]\<rparr>) \<and>
   endpoint_matches (remote [glance ''s1''] [glance_endpoint ''e1'']) ''s1'' (Some ''aw1'')
       (Some ''https://glance/'') (Some ''http://glance:9292/'') (Some ''https://glance/'') =
     [glance_endpoint ''e1''] \<and>
   ensure_endpoint_exists (remote [glance ''s1''] [glance_endpoint ''e1'']) ''s2'' ''glance''
       (Some ''aw1'') (Some ''https://glance/'') (Some ''http://glance:9292/'')
       (Some ''https://glance/'') False =
     (Inr (False, Some ''e1''),
      \<lparr>services = [glance ''s1''], endpoints = [glance_endpoint ''e1''],
        calls = [ServicesList, EndpointsList]\<rparr>)"
proof -
  let ?c = "remote [glance ''s1''] [glance_endpoint ''e1'']"
  have i: "svc_id (glance ''s1'') = ''s1''" "ep_id (glance_endpoint ''e1'') = ''e1''"
    by (simp_all add: glance_def glance_endpoint_def)
  have h1: "service_matches ?c ''glance'' = [glance ''s1'']"
    by (simp add: remote_def glance_def service_matches_def)
  have h2: "endpoint_matches ?c (svc_id (glance ''s1'')) (Some ''aw1'') (Some ''https://glance/'')
       (Some ''http://glance:9292/'') (Some ''https://glance/'') = [glance_endpoint ''e1'']"
    by (simp add: remote_def glance_def glance_endpoint_def endpoint_matches_def
          endpoint_match_def)
  from ensure_present_one_match[of ?c "''glance''" "glance ''s1''" "''s2''" "''image''"
        "''Not provided''" False "''glance''" "glance ''s1''" "Some ''aw1''"
        "Some ''https://glance/''" "Some ''http://glance:9292/''" "Some ''https://glance/''"
        "glance_endpoint ''e1''"] h1 h2
  have "ensure_service_exists ?c ''s2'' ''glance'' ''image'' ''Not provided'' False =
          (Inr (False, Some (svc_id (glance ''s1''))), ?c\<lparr>calls := calls ?c @ [ServicesList]\<rparr>)"
    and "ensure_endpoint_exists ?c ''s2'' ''glance'' (Some ''aw1'') (Some ''https://glance/'')
           (Some ''http://glance:9292/'') (Some ''https://glance/'') False =
          (Inr (False, Some (ep_id (glance_endpoint ''e1''))),
           ?c\<lparr>calls := calls ?c @ [ServicesList, EndpointsList]\<rparr>)"
    by blast+
  then show ?thesis
    using h1 h2 unfolding i by (simp add: remote_def)
qed

text \<open>
  C7. Idempotence. Starting from a remote state where the descriptor has zero matches,
  two calls of the present path in sequence, with the same descriptor and check mode
  off, give \<^verbatim>\<open>changed = True\<close> and then \<^verbatim>\<open>changed = False\<close>, both with the identifier
  assigned at the first call; the second call issues no create or delete call.
\<close>

theorem ensure_present_idempotent:
  "(service_matches c name = [] \<longrightarrow>
      fst (ensure_service_exists c first_id name ty d False) = Inr (True, Some first_id) \<and>
      fst (ensure_service_exists (snd (ensure_service_exists c first_id name ty d False))
             second_id name ty d False) = Inr (False, Some first_id) \<and>
      mutations (snd (ensure_service_exists c first_id name ty d False))
        (snd (ensure_service_exists (snd (ensure_service_exists c first_id name ty d False))
                second_id name ty d False)) = []) \<and>
   (service_matches c sn = [s] \<and> endpoint_matches c (svc_id s) r pu iu au = [] \<longrightarrow>
      fst (ensure_endpoint_exists c first_id sn r pu iu au False) = Inr (True, Some first_id) \<and>
      fst (ensure_endpoint_exists (snd (ensure_endpoint_exists c first_id sn r pu iu au False))
             second_id sn r pu iu au False) = Inr (False, Some first_id) \<and>
      mutations (snd (ensure_endpoint_exists c first_id sn r pu iu au False))
        (snd (ensure_endpoint_exists (snd (ensure_endpoint_exists c first_id sn r pu iu au False))
                second_id sn r pu iu au False)) = [])"
proof (intro conjI impI)
  assume z: "service_matches c name = []"
  let ?n = "\<lparr>svc_id = first_id, svc_name = name, svc_type = ty, svc_description = d\<rparr>"
  let ?c1 = "c\<lparr>services := services c @ [?n],
               calls := calls c @ [ServicesList, ServicesCreate name ty d]\<rparr>"
  have first: "ensure_service_exists c first_id name ty d False = (Inr (True, Some first_id), ?c1)"
    by (rule svc_present_none(1)[OF z])
  have "service_matches ?c1 name = [?n]"
    using z by (simp add: service_matches_def)
  then have second: "ensure_service_exists ?c1 second_id name ty d False =
      (Inr (False, Some (svc_id ?n)), ?c1\<lparr>calls := calls ?c1 @ [ServicesList]\<rparr>)"
    by (rule svc_present_one)
  show "fst (ensure_service_exists c first_id name ty d False) = Inr (True, Some first_id)"
    by (simp add: first)
  show "fst (ensure_service_exists (snd (ensure_service_exists c first_id name ty d False))
             second_id name ty d False) = Inr (False, Some first_id)"
    by (simp add: first second)
  show "mutations (snd (ensure_service_exists c first_id name ty d False))
        (snd (ensure_service_exists (snd (ensure_service_exists c first_id name ty d False))
                second_id name ty d False)) = []"
    by (simp add: first second mutations_def issued_def)
next
  assume "service_matches c sn = [s] \<and> endpoint_matches c (svc_id s) r pu iu au = []"
  then have sv: "service_matches c sn = [s]"
    and z: "endpoint_matches c (svc_id s) r pu iu au = []" by simp_all
  let ?n = "\<lparr>ep_id = first_id, ep_service_id = svc_id s, ep_region = r,
             ep_publicurl = pu, ep_internalurl = iu, ep_adminurl = au\<rparr>"
  let ?c1 = "c\<lparr>endpoints := endpoints c @ [?n],
               calls := calls c @
                 [ServicesList, EndpointsList, EndpointsCreate (svc_id s) r pu iu au]\<rparr>"
  have first: "ensure_endpoint_exists c first_id sn r pu iu au False = (Inr (True, Some first_id), ?c1)"
    by (rule ep_present_none(1)[OF sv z])
  have sv1: "service_matches ?c1 sn = [s]"
    using sv by (simp add: service_matches_def)
  have "endpoint_matches ?c1 (svc_id s) r pu iu au = [?n]"
    using z by (simp add: endpoint_matches_def endpoint_match_def)
  with sv1 have second: "ensure_endpoint_exists ?c1 second_id sn r pu iu au False =
      (Inr (False, Some (ep_id ?n)), ?c1\<lparr>calls := calls ?c1 @ [ServicesList, EndpointsList]\<rparr>)"
    by (rule ep_present_one)
  show "fst (ensure_endpoint_exists c first_id sn r pu iu au False) = Inr (True, Some first_id)"
    by (simp add: first)
  show "fst (ensure_endpoint_exists (snd (ensure_endpoint_exists c first_id sn r pu iu au False))
             second_id sn r pu iu au False) = Inr (False, Some first_id)"
    by (simp add: first second)
  show "mutations (snd (ensure_endpoint_exists c first_id sn r pu iu au False))
        (snd (ensure_endpoint_exists (snd (ensure_endpoint_exists c first_id sn r pu iu au False))
                second_id sn r pu iu au False)) = []"
    by (simp add: first second mutations_def issued_def)
qed

theorem ensure_present_idempotent_witness:
  "service_matches (remote [] []) ''glance'' = [] \<and>
   fst (ensure_service_exists (remote [] []) ''s1'' ''glance'' ''image'' ''Not provided'' False) =
     Inr (True, Some ''s1'') \<and>
   fst (ensure_service_exists
          (snd (ensure_service_exists (remote [] []) ''s1'' ''glance'' ''image'' ''Not provided'' False))
          ''s2'' ''glance'' ''image'' ''Not provided'' False) = Inr (False, Some ''s1'') \<and>
   service_matches (remote [glance ''s1''] []) ''glance'' = [glance ''s1''] \<and>
   endpoint_matches (remote [glance ''s1''] []) ''s1'' (Some ''aw1'') (Some ''https://glance/'')
       None None = [] \<and>
   fst (ensure_endpoint_exists (remote [glance ''s1''] []) ''e1'' ''glance'' (Some ''aw1'')
          (Some ''https://glance/'') None None False) = Inr (True, Some ''e1'') \<and>
   fst (ensure_endpoint_exists
          (snd (ensure_endpoint_exists (remote [glance ''s1''] []) ''e1'' ''glance'' (Some ''aw1'')
                  (Some ''https://glance/'') None None False))
          ''e2'' ''glance'' (Some ''aw1'') (Some ''https://glance/'') None None False) =
     Inr (False, Some ''e1'')"
proof -
  have h1: "service_matches (remote [] []) ''glance'' = []"
    by (simp add: remote_def service_matches_def)
  have h2: "service_matches (remote [glance ''s1''] []) ''glance'' = [glance ''s1'']"
    by (simp add: remote_def glance_def service_matches_def)
  have i: "svc_id (glance ''s1'') = ''s1''" by (simp add: glance_def)
  have h3: "endpoint_matches (remote [glance ''s1''] []) (svc_id (glance ''s1'')) (Some ''aw1'')
       (Some ''https://glance/'') None None = []"
    by (simp add: remote_def endpoint_matches_def)
  show ?thesis
    using h1 h2 h3
      ensure_present_idempotent[where c = "remote [] []" and name = "''glance''"
        and first_id = "''s1''" and second_id = "''s2''" and ty = "''image''" and d = "''Not provided''"
        and sn = "''nope''" and s = "glance ''s1''"]
      ensure_present_idempotent[where c = "remote [glance ''s1''] []" and sn = "''glance''"
        and s = "glance ''s1''" and first_id = "''e1''" and second_id = "''e2''" and r = "Some ''aw1''"
        and pu = "Some ''https://glance/''" and iu = None and au = None and name = "''nope''"]
    unfolding i by blast
qed

text \<open>
  C10. Both endpoint paths resolve the service by name first. For every descriptor
  whose service name matches no service, they raise \<^verbatim>\<open>KeyError\<close> in both modes after
  the one listing of the services: no endpoint is listed, created or deleted, and the
  catalogue is as it was.
\<close>

theorem endpoint_missing_service:
  "service_matches c sn = [] \<Longrightarrow>
   ensure_endpoint_exists c new_id sn r pu iu au check_mode =
     (Inl (KeyError (''No keystone services with name '' @ sn)),
      c\<lparr>calls := calls c @ [ServicesList]\<rparr>) \<and>
   ensure_endpoint_absent c sn r pu iu au check_mode =
     (Inl (KeyError (''No keystone services with name '' @ sn)),
      c\<lparr>calls := calls c @ [ServicesList]\<rparr>)"
  by (simp add: ep_service_none)

theorem endpoint_missing_service_witness:
  "service_matches (remote [glance ''s1''] [glance_endpoint ''e1'']) ''nova'' = [] \<and>
   ensure_endpoint_exists (remote [glance ''s1''] [glance_endpoint ''e1'']) ''e2'' ''nova''
       (Some ''aw1'') (Some ''https://glance/'') (Some ''http://glance:9292/'')
       (Some ''https://glance/'') False =
     (Inl (KeyError ''No keystone services with name nova''),
      \<lparr>services = [glance ''s1''], endpoints = [glance_endpoint ''e1''],
        calls = [ServicesList]\<rparr>) \<and>
   ensure_endpoint_absent (remote [glance ''s1''] [glance_endpoint ''e1'']) ''nova''
       (Some ''aw1'') (Some ''https://glance/'') (Some ''http://glance:9292/'')
       (Some ''https://glance/'') False =
     (Inl (KeyError ''No keystone services with name nova''),
      \<lparr>services = [glance ''s1''], endpoints = [glance_endpoint ''e1''],
        calls = [ServicesList]\<rparr>)"
proof -
  have h: "service_matches (remote [glance ''s1''] [glance_endpoint ''e1'']) ''nova'' = []"
    by (simp add: remote_def glance_def service_matches_def)
  show ?thesis
    using h endpoint_missing_service[OF h, of "''e2''" "Some ''aw1''" "Some ''https://glance/''"
        "Some ''http://glance:9292/''" "Some ''https://glance/''" False]
    by (simp add: remote_def)
qed

section \<open>Check mode in the module entry points\<close>

text \<open>
  C9, the code at the failing input. The host asks for a check-mode run. Both modules
  are built without \<^verbatim>\<open>supports_check_mode\<close>, so the run ends in the constructor with
  \<^verbatim>\<open>skipped=True\<close>, before the \<^verbatim>\<open>try\<close> block and with no client call: the handler that
  would turn an exception into \<^verbatim>\<open>changed=True\<close> is never reached, neither for two
  services named glance on the present path of the service module nor for a missing
  service on the absent path of the endpoint module. With check mode off an exception
  raised by the construction of the cloud object is reported with \<^verbatim>\<open>fail_json\<close>.
\<close>

theorem check_mode_run_is_skipped:
  "service_main has_shade connect c new_id sp True = (ExitSkipped, c) \<and>
   endpoint_main has_shade connect c new_id ep True = (ExitSkipped, c) \<and>
   service_main True None (remote [glance ''s1'', glance ''s2''] []) ''s9''
       \<lparr>p_name = ''glance'', p_service_type = ''image'', p_description = ''Not provided'',
        p_state = ''present''\<rparr> True =
     (ExitSkipped, remote [glance ''s1'', glance ''s2''] []) \<and>
   endpoint_main True None (remote [glance ''s1''] []) ''e9''
       \<lparr>p_service_name = ''nova'', p_region = None, p_public_url = Some ''https://nova/'',
        p_internal_url = None, p_admin_url = None, p_ep_state = ''absent''\<rparr> True =
     (ExitSkipped, remote [glance ''s1''] []) \<and>
   fst (service_main True (Some e) c new_id sp False) = FailJson (ExceptionMsg e) \<and>
   fst (endpoint_main True (Some e) c new_id ep False) = FailJson (ExceptionMsg e)"
  by (simp add: service_main_def endpoint_main_def ansible_module_def)

end
